theory Spec2Isabelle
  imports Main
begin

section \<open>Three archive scripts of SeaCrewManager\<close>

text \<open>
  The repository holds three independent Python scripts under \<open>scripts/archive\<close>:
  \<^item> \<open>fix_readme.py\<close> (Script A) uploads \<open>README.md\<close> to a hosted space;
  \<^item> \<open>query-balaji.py\<close> (Script B) runs one fixed join query on a local SQLite file and
    prints the first row;
  \<^item> \<open>upload_to_hf.py\<close> (Script C) reads a space identifier and a token, creates the space
    when the probe for it fails, and uploads the current directory.

  Each script is a straight line of calls into a library (the hub client, \<open>sqlite3\<close>), so a
  run is modelled as the list of calls and prints it makes, in order, together with the
  exit code of the process. What the outside world answers to a call (an exception or a
  normal return, the lines typed at a prompt, the rows of the data file) is the input of the
  model.

  Strings are byte lists. A Python \<open>print(s)\<close> is the event \<open>Print s\<close>; the line
  terminator that \<open>print\<close> adds is not part of \<open>s\<close>.
\<close>

subsection \<open>Exceptions, events and runs\<close>

text \<open>
  An exception is an instance of a subclass of Python's \<open>Exception\<close>, given by its class
  name and by the text \<open>str(e)\<close>. Every \<open>except Exception\<close> clause of the scripts
  catches all of them.
\<close>

datatype exn = Exn (exn_class: string) (exn_str: string)

datatype event =
    Print string
  | Input string
  | Os_system string
  | Upload_file string string string string string
  | Repo_info string string
  | Create_repo string string string string
  | Upload_folder string string string string "string list" "string list"
  | Connect string
  | Cursor
  | Execute string
  | Fetchone
  | Close

text \<open>
  The arguments are those of the source, in the order it writes them:
  \<open>Upload_file path_or_fileobj path_in_repo repo_id repo_type token\<close>,
  \<open>Repo_info repo_id repo_type\<close>,
  \<open>Create_repo repo_id repo_type space_sdk token\<close>,
  \<open>Upload_folder folder_path repo_id repo_type token ignore_patterns files\<close>, where
  \<open>files\<close> are the paths the call selects for upload; \<open>Connect database\<close>;
  \<open>Execute sql\<close>.
\<close>

record run =
  trace :: "event list"
  exit_code :: nat

definition newline :: char where
  "newline = CHR 0x0A"

fun is_upload_file :: "event \<Rightarrow> bool" where
  "is_upload_file (Upload_file f p r t k) = True"
| "is_upload_file e = False"

fun is_repo_info :: "event \<Rightarrow> bool" where
  "is_repo_info (Repo_info r t) = True"
| "is_repo_info e = False"

fun is_create_repo :: "event \<Rightarrow> bool" where
  "is_create_repo (Create_repo r t s k) = True"
| "is_create_repo e = False"

fun is_upload_folder :: "event \<Rightarrow> bool" where
  "is_upload_folder (Upload_folder f r t k ps fs) = True"
| "is_upload_folder e = False"

definition is_network_call :: "event \<Rightarrow> bool" where
  "is_network_call e =
     (is_upload_file e \<or> is_repo_info e \<or> is_create_repo e \<or> is_upload_folder e)"

fun is_os_system :: "event \<Rightarrow> bool" where
  "is_os_system (Os_system c) = True"
| "is_os_system e = False"



text \<open>The file lists of the \<open>Upload_folder\<close> calls of a run, in order.\<close>

fun upload_payloads :: "event list \<Rightarrow> string list list" where
  "upload_payloads [] = []"
| "upload_payloads (Upload_folder f r t k ps fs # es) = fs # upload_payloads es"
| "upload_payloads (e # es) = upload_payloads es"

text \<open>The texts printed by a run, in order.\<close>

fun printed :: "event list \<Rightarrow> string list" where
  "printed [] = []"
| "printed (Print s # es) = s # printed es"
| "printed (e # es) = printed es"

subsection \<open>Script A: \<open>fix_readme.py\<close>\<close>

definition REPO_ID_A :: string where
  "REPO_ID_A = ''Sagar007Rana/sea-crew-manager''"

definition TOKEN_A :: string where
  "TOKEN_A = ''YOUR_HUGGINGFACE_TOKEN''"

text \<open>
  The world of Script A: whether \<open>huggingface_hub\<close> can be imported (line 4), and the
  exception \<open>api.upload_file\<close> raises, if it raises one. Nothing in the script catches
  either, so both end the process with exit code 1.
\<close>

record world_a =
  hub_installed_a :: bool
  upload_file_exc :: "exn option"

text \<open>The check mark U+2705 that opens the success message, in UTF-8.\<close>

definition check_mark :: string where
  "check_mark = [CHR 0xE2, CHR 0x9C, CHR 0x85]"

definition fix_readme :: "world_a \<Rightarrow> run" where
  "fix_readme w =
     (if \<not> hub_installed_a w then \<lparr>trace = [], exit_code = 1\<rparr>
      else
        let started =
          [Print ''Uploading README.md to fix configuration error...'',
           Upload_file ''README.md'' ''README.md'' REPO_ID_A ''space'' TOKEN_A]
        in case upload_file_exc w of
             Some e \<Rightarrow> \<lparr>trace = started, exit_code = 1\<rparr>
           | None \<Rightarrow>
               \<lparr>trace = started @
                  [Print (check_mark @ '' README.md uploaded successfully!''),
                   Print (''Check your Space at: https://huggingface.co/spaces/'' @ REPO_ID_A)],
                exit_code = 0\<rparr>)"

subsection \<open>Script C: \<open>upload_to_hf.py\<close>\<close>

text \<open>
  The world of Script C: the command line, the lines typed at the prompts (\<open>stdin_line w n\<close>
  is the line the \<open>n\<close>-th call of \<open>input\<close> returns; the user answers every prompt),
  \<open>sys.executable\<close>, whether \<open>huggingface_hub\<close> can be imported, the exception each of
  the three hub calls raises, if any, and the relative paths of the files under the
  current directory.
\<close>

record world_c =
  argv :: "string list"
  stdin_line :: "nat \<Rightarrow> string"
  executable :: string
  hub_installed :: bool
  repo_info_exc :: "exn option"
  create_repo_exc :: "exn option"
  upload_folder_exc :: "exn option"
  cwd_files :: "string list"

definition ignore_patterns :: "string list" where
  "ignore_patterns =
     [''node_modules/*'',
      ''dist/*'',
      ''.git/*'',
      ''.env'',
      ''uploads/*'',
      ''baileys_auth/*'',
      ''*.tar.gz'',
      ''*.apk'',
      ''node_modules'',
      ''dist'',
      ''.git'']"

text \<open>
  Modelled from the spec: the selection of files inside \<open>upload_folder\<close> is code of the
  hub client library, which is not among the sources. The spec's words are "upload every
  file under the current working directory, excluding a fixed list of glob-style path
  patterns". The glob match is the one of Python's \<open>fnmatch\<close>, which the library applies
  to the whole relative path: \<open>*\<close> stands for any run of characters, the separator
  \<open>/\<close> included, \<open>?\<close> for any one character, every other character for itself.
  Character classes are left out; none of the eleven patterns has a bracket. Paths that
  the library leaves out on its own account (its cache and version-control folders) are
  taken not to be listed in \<open>cwd_files\<close>.
\<close>

fun fnmatch :: "string \<Rightarrow> string \<Rightarrow> bool" where
  "fnmatch [] [] = True"
| "fnmatch (c # cs) [] = False"
| "fnmatch [] (p # ps) = (p = CHR ''*'' \<and> fnmatch [] ps)"
| "fnmatch (c # cs) (p # ps) =
     (if p = CHR ''*'' then fnmatch (c # cs) ps \<or> fnmatch cs (p # ps)
      else (p = CHR ''?'' \<or> p = c) \<and> fnmatch cs ps)"

text \<open>
  Modelled from the spec: a path is excluded when it matches one of the patterns ("excluding
  a fixed list of glob-style path patterns"); the library's own test is missing from the
  sources.
\<close>

definition ignored :: "string list \<Rightarrow> string \<Rightarrow> bool" where
  "ignored pats path = list_ex (fnmatch path) pats"

text \<open>
  Modelled from the spec: the files an \<open>upload_folder\<close> call sends are the files of the
  folder that are not excluded ("upload every file under the current working directory,
  excluding ..."); the library's selection is missing from the sources.
\<close>

definition filter_repo_objects :: "string list \<Rightarrow> string list \<Rightarrow> string list" where
  "filter_repo_objects paths pats = filter (\<lambda>p. \<not> ignored pats p) paths"

text \<open>Lines 7 to 12: the identifier and the token, with the prompts shown to get them.\<close>

definition prompt_repo_id :: string where
  "prompt_repo_id = ''Enter your Hugging Face Space ID (e.g., username/space-name): ''"

definition prompt_token :: string where
  "prompt_token = ''Enter your Hugging Face Write Token: ''"

definition get_config :: "world_c \<Rightarrow> event list \<times> string \<times> string" where
  "get_config w =
     (if length (argv w) > 2 then ([], argv w ! 1, argv w ! 2)
      else ([Input prompt_repo_id, Input prompt_token], stdin_line w 0, stdin_line w 1))"

definition config_events :: "world_c \<Rightarrow> event list" where
  "config_events w = fst (get_config w)"

definition config_repo_id :: "world_c \<Rightarrow> string" where
  "config_repo_id w = fst (snd (get_config w))"

definition config_token :: "world_c \<Rightarrow> string" where
  "config_token w = snd (snd (get_config w))"

text \<open>
  Lines 24 to 34, the inner \<open>try\<close>: the probe, and the creation when the probe raises.
  The result is the events and the exception that leaves the block, if one does: only
  \<open>create_repo\<close> can raise out of it.
\<close>

definition ensure_repo :: "world_c \<Rightarrow> string \<Rightarrow> string \<Rightarrow> event list \<times> exn option" where
  "ensure_repo w REPO_ID TOKEN =
     (case repo_info_exc w of
        None \<Rightarrow> ([Repo_info REPO_ID ''space''], None)
      | Some probe_exc \<Rightarrow>
          ([Repo_info REPO_ID ''space'',
            Print (''Space '' @ REPO_ID @ '' not found. Creating it now...''),
            Create_repo REPO_ID ''space'' ''docker'' TOKEN]
           @ (case create_repo_exc w of
                None \<Rightarrow> [Print ''Space created successfully!'']
              | Some e \<Rightarrow> []),
           create_repo_exc w))"

text \<open>Lines 36 to 56: the upload and the two closing messages.\<close>

definition do_upload :: "world_c \<Rightarrow> string \<Rightarrow> string \<Rightarrow> event list \<times> exn option" where
  "do_upload w REPO_ID TOKEN =
     ([Upload_folder ''.'' REPO_ID ''space'' TOKEN ignore_patterns
         (filter_repo_objects (cwd_files w) ignore_patterns)]
      @ (case upload_folder_exc w of
           None \<Rightarrow>
             [Print (newline # ''Upload Complete!''),
              Print (''Your app will be live soon at: https://huggingface.co/spaces/'' @ REPO_ID)]
         | Some e \<Rightarrow> []),
      upload_folder_exc w)"

text \<open>Lines 22 to 58: the outer \<open>try\<close> with its handler, which prints and goes on.\<close>

definition error_message :: "exn \<Rightarrow> string" where
  "error_message e = newline # ''Error: '' @ exn_str e"

definition try_upload :: "world_c \<Rightarrow> string \<Rightarrow> string \<Rightarrow> event list" where
  "try_upload w REPO_ID TOKEN =
     (case ensure_repo w REPO_ID TOKEN of
        (evs, Some e) \<Rightarrow> evs @ [Print (error_message e)]
      | (evs, None) \<Rightarrow>
          (case do_upload w REPO_ID TOKEN of
             (evs', Some e) \<Rightarrow> evs @ evs' @ [Print (error_message e)]
           | (evs', None) \<Rightarrow> evs @ evs'))"

definition upload_to_hf :: "world_c \<Rightarrow> event list" where
  "upload_to_hf w =
     (let REPO_ID = config_repo_id w; TOKEN = config_token w
      in if REPO_ID = [] \<or> TOKEN = []
         then config_events w @ [Print ''Error: Repo ID and Token are required.'']
         else config_events w
              @ [Print (''Starting upload to '' @ REPO_ID @ ''...'')]
              @ try_upload w REPO_ID TOKEN)"

text \<open>
  The module: the import of line 3 ends the process with an uncaught \<open>ImportError\<close> when
  the library is missing; otherwise the guard of lines 60 to 68 runs, and the process ends
  with exit code 0 once \<open>upload_to_hf\<close> has returned.
\<close>

definition main_guard :: "world_c \<Rightarrow> event list" where
  "main_guard w =
     (if hub_installed w then []
      else [Print ''Installing required library: huggingface-hub...'',
            Os_system (executable w @ '' -m pip install huggingface-hub'')])
     @ upload_to_hf w"

definition script_c :: "world_c \<Rightarrow> run" where
  "script_c w =
     (if \<not> hub_installed w then \<lparr>trace = [], exit_code = 1\<rparr>
      else \<lparr>trace = main_guard w, exit_code = 0\<rparr>)"

subsection \<open>Script B: \<open>query-balaji.py\<close>\<close>

text \<open>
  A column value as \<open>sqlite3\<close> hands it to Python: \<open>NULL\<close> is \<open>None\<close>, an
  \<open>INTEGER\<close> is an \<open>int\<close>, a \<open>TEXT\<close> is a \<open>str\<close>. Floating point and blob values are
  left out. \<open>py_str\<close> is what an f-string field \<open>{v}\<close> renders.
\<close>

datatype sql_value = Null | Integer int | Text string

definition digit_char :: "nat \<Rightarrow> char" where
  "digit_char d = char_of (48 + d)"

function str_nat :: "nat \<Rightarrow> string" where
  "str_nat n = (if n < 10 then [digit_char n] else str_nat (n div 10) @ [digit_char (n mod 10)])"
  by pat_completeness auto
termination
  by (relation "measure id") auto

declare str_nat.simps [simp del]

definition str_int :: "int \<Rightarrow> string" where
  "str_int i = (if i < 0 then CHR ''-'' # str_nat (nat (- i)) else str_nat (nat i))"

fun py_str :: "sql_value \<Rightarrow> string" where
  "py_str Null = ''None''"
| "py_str (Integer i) = str_int i"
| "py_str (Text s) = s"

text \<open>
  The two tables the query reads, with the columns it names. The schema belongs to the
  application, not to the script.
\<close>

record crew_member =
  cm_id :: sql_value
  firstName :: sql_value
  lastName :: sql_value
  dateOfBirth :: sql_value

record document =
  d_id :: sql_value
  crewMemberId :: sql_value
  d_type :: sql_value
  documentNumber :: sql_value
  expiryDate :: sql_value
  issueDate :: sql_value
  issuingAuthority :: sql_value

text \<open>A result row: the eight columns of the \<open>SELECT\<close> list, \<open>result[0]\<close> to \<open>result[7]\<close>.\<close>

record row =
  col0 :: sql_value
  col1 :: sql_value
  col2 :: sql_value
  col3 :: sql_value
  col4 :: sql_value
  col5 :: sql_value
  col6 :: sql_value
  col7 :: sql_value

text \<open>
  The comparison \<open>=\<close> of SQL on values of one storage class: \<open>NULL\<close> equals nothing,
  text is compared byte by byte.
\<close>

definition sql_eq :: "sql_value \<Rightarrow> sql_value \<Rightarrow> bool" where
  "sql_eq a b = (a \<noteq> Null \<and> b \<noteq> Null \<and> a = b)"

text \<open>
  Lines 10 to 24: the join of \<open>crew_members\<close> and \<open>documents\<close> on the crew member's id,
  restricted to the fixed first name and document type. The statement has no
  \<open>ORDER BY\<close>; the rows are listed crew member by crew member.
\<close>

definition query :: "crew_member list \<Rightarrow> document list \<Rightarrow> row list" where
  "query cms docs =
     [\<lparr>col0 = firstName cm, col1 = lastName cm, col2 = dateOfBirth cm,
       col3 = d_id d, col4 = documentNumber d, col5 = expiryDate d,
       col6 = issueDate d, col7 = issuingAuthority d\<rparr>.
      cm \<leftarrow> cms, d \<leftarrow> docs,
      sql_eq (cm_id cm) (crewMemberId d)
      \<and> sql_eq (firstName cm) (Text ''VENKATARANGAN'')
      \<and> sql_eq (d_type d) (Text ''passport'')]"

definition fetchone :: "row list \<Rightarrow> row option" where
  "fetchone rows = (case rows of [] \<Rightarrow> None | r # rest \<Rightarrow> Some r)"

text \<open>
  The text of the statement, lines 10 to 24, as the triple-quoted literal holds it.
\<close>

definition quote :: char where
  "quote = CHR 0x27"

definition query_sql :: string where
  "query_sql =
     [newline] @
     ''    SELECT '' @ [newline] @
     ''        cm.firstName,'' @ [newline] @
     ''        cm.lastName,'' @ [newline] @
     ''        cm.dateOfBirth,'' @ [newline] @
     ''        d.id,'' @ [newline] @
     ''        d.documentNumber,'' @ [newline] @
     ''        d.expiryDate,'' @ [newline] @
     ''        d.issueDate,'' @ [newline] @
     ''        d.issuingAuthority'' @ [newline] @
     ''    FROM crew_members cm'' @ [newline] @
     ''    JOIN documents d ON cm.id = d.crewMemberId'' @ [newline] @
     ''    WHERE cm.firstName = '' @ [quote] @ ''VENKATARANGAN'' @ [quote] @ '' '' @ [newline] @
     ''      AND d.type = '' @ [quote] @ ''passport'' @ [quote] @ [newline] @
     ''    ''"


text \<open>
  The state of the path \<open>crew_management.db\<close> in the current directory:
  \<^item> \<open>Missing\<close>: there is no such file;
  \<^item> \<open>Empty_file\<close>: a file of zero bytes, which SQLite reads as a database without tables;
  \<^item> \<open>Cannot_open e\<close>: a path that cannot be opened (a directory, a file without
    permission); \<open>sqlite3.connect\<close> raises \<open>e\<close> for it;
  \<^item> \<open>Query_fails e\<close>: a file that opens but is no database, or lacks a table or a column
    that the statement names; \<open>cursor.execute\<close> raises \<open>e\<close> for it;
  \<^item> \<open>Fetch_fails e\<close>: a database with the two tables in which a value of the first
    matching row cannot be decoded; \<open>cursor.fetchone\<close> raises \<open>e\<close> for it;
  \<^item> \<open>Tables cms docs\<close>: a database with the two tables and these rows.
\<close>

datatype data_file =
    Missing
  | Empty_file
  | Cannot_open exn
  | Query_fails exn
  | Fetch_fails exn
  | Tables "crew_member list" "document list"

record run_b = run +
  file_after :: data_file

text \<open>
  Line 5. \<open>sqlite3.connect\<close> in its default mode opens the file for reading and
  writing and creates it when there is none; the new file is empty. The result is the
  exception raised, or the state of the file behind the open connection.
\<close>

definition sqlite3_connect :: "data_file \<Rightarrow> exn + data_file" where
  "sqlite3_connect f =
     (case f of
        Cannot_open e \<Rightarrow> Inl e
      | Missing \<Rightarrow> Inr Empty_file
      | _ \<Rightarrow> Inr f)"

definition no_such_table :: exn where
  "no_such_table = Exn ''OperationalError'' ''no such table: crew_members''"

text \<open>
  Line 26, on the file behind the connection: the exception \<open>cursor.execute\<close> raises for
  the statement, if it raises one. A database without tables has no \<open>crew_members\<close>.
  The statement is a \<open>SELECT\<close>, so the file stays as it is.
\<close>

definition cursor_execute :: "data_file \<Rightarrow> exn option" where
  "cursor_execute opened =
     (case opened of
        Tables cms docs \<Rightarrow> None
      | Fetch_fails e \<Rightarrow> None
      | Query_fails e \<Rightarrow> Some e
      | Cannot_open e \<Rightarrow> Some e
      | Empty_file \<Rightarrow> Some no_such_table
      | Missing \<Rightarrow> Some no_such_table)"

text \<open>Line 27: the first row of the result, \<open>None\<close> when there is no row.\<close>

definition cursor_fetchone :: "data_file \<Rightarrow> exn + row option" where
  "cursor_fetchone opened =
     (case opened of
        Tables cms docs \<Rightarrow> Inr (fetchone (query cms docs))
      | Fetch_fails e \<Rightarrow> Inl e
      | _ \<Rightarrow> Inr None)"

definition header :: string where
  "header = ''=== VENKATARANGAN BALAJI Passport Data ==='' @ [newline]"

definition not_found :: string where
  "not_found = ''No passport found for VENKATARANGAN BALAJI''"

text \<open>Lines 30 to 37: the eight prints of the branch taken when a row came back.\<close>

definition print_result :: "row \<Rightarrow> event list" where
  "print_result result =
     [Print (''Name: '' @ py_str (col0 result) @ '' '' @ py_str (col1 result)),
      Print (''Date of Birth: '' @ py_str (col2 result)),
      Print ''---'',
      Print (''Document ID: '' @ py_str (col3 result)),
      Print (''Passport Number: '' @ py_str (col4 result)),
      Print (''Expiry Date: '' @ py_str (col5 result)),
      Print (''Issue Date: '' @ py_str (col6 result)),
      Print (''Issuing Authority: '' @ py_str (col7 result))]"

text \<open>
  The whole script, call by call. The handler of lines 43 to 45 prints the exception and
  leaves with \<open>sys.exit(1)\<close>. The file after the run is the file as \<open>sqlite3.connect\<close>
  left it: the one statement executed is the \<open>SELECT\<close>, \<open>fetchone\<close> and \<open>close\<close>
  write nothing, and the script never commits.
\<close>

definition query_balaji :: "data_file \<Rightarrow> run_b" where
  "query_balaji f =
     (case sqlite3_connect f of
        Inl e \<Rightarrow>
          \<lparr>trace = [Connect ''crew_management.db'', Print (''Error: '' @ exn_str e)],
           exit_code = 1, file_after = f\<rparr>
      | Inr opened \<Rightarrow>
          (case cursor_execute opened of
             Some e \<Rightarrow>
               \<lparr>trace = [Connect ''crew_management.db'', Cursor, Print header,
                         Execute query_sql, Print (''Error: '' @ exn_str e)],
                exit_code = 1, file_after = opened\<rparr>
           | None \<Rightarrow>
               (case cursor_fetchone opened of
                  Inl e \<Rightarrow>
                    \<lparr>trace = [Connect ''crew_management.db'', Cursor, Print header,
                              Execute query_sql, Fetchone, Print (''Error: '' @ exn_str e)],
                     exit_code = 1, file_after = opened\<rparr>
                | Inr result \<Rightarrow>
                    \<lparr>trace = [Connect ''crew_management.db'', Cursor, Print header,
                              Execute query_sql, Fetchone]
                             @ (case result of
                                  Some r \<Rightarrow> print_result r
                                | None \<Rightarrow> [Print not_found])
                             @ [Close],
                     exit_code = 0, file_after = opened\<rparr>)))"

subsection \<open>Sample inputs\<close>

text \<open>Worlds and data files on which the theorems below are instantiated.\<close>

definition scenario_world :: world_c where
  "scenario_world =
     \<lparr>argv = [''upload_to_hf.py'', ''user/space'', ''hf_token''],
      stdin_line = (\<lambda>n. []),
      executable = ''python3'',
      hub_installed = True,
      repo_info_exc = None,
      create_repo_exc = None,
      upload_folder_exc = None,
      cwd_files = [''.env'', ''app.py'', ''node_modules/pkg/index.js'']\<rparr>"

definition absent_world :: world_c where
  "absent_world =
     scenario_world\<lparr>repo_info_exc := Some (Exn ''RepositoryNotFoundError'' ''404 Client Error'')\<rparr>"

definition forbidden_world :: world_c where
  "forbidden_world =
     scenario_world\<lparr>repo_info_exc := Some (Exn ''HfHubHTTPError'' ''403 Forbidden'')\<rparr>"

definition upload_fails_world :: world_c where
  "upload_fails_world =
     scenario_world\<lparr>upload_folder_exc := Some (Exn ''ConnectionError'' ''connection reset'')\<rparr>"

definition create_fails_world :: world_c where
  "create_fails_world =
     absent_world\<lparr>create_repo_exc := Some (Exn ''HfHubHTTPError'' ''409 Conflict'')\<rparr>"

definition empty_token_world :: world_c where
  "empty_token_world = scenario_world\<lparr>argv := [''upload_to_hf.py'', ''user/space'', []]\<rparr>"

definition one_arg_world :: world_c where
  "one_arg_world =
     scenario_world
       \<lparr>argv := [''upload_to_hf.py'', ''user/space''],
        stdin_line := (\<lambda>n. if n = 0 then ''typed/space'' else ''typed_token'')\<rparr>"

definition sample_member :: crew_member where
  "sample_member =
     \<lparr>cm_id = Integer 1, firstName = Text ''VENKATARANGAN'', lastName = Text ''BALAJI'',
      dateOfBirth = Text ''1970-01-01''\<rparr>"

definition other_member :: crew_member where
  "other_member =
     \<lparr>cm_id = Integer 2, firstName = Text ''OTHER'', lastName = Text ''MEMBER'',
      dateOfBirth = Null\<rparr>"

definition sample_passport :: document where
  "sample_passport =
     \<lparr>d_id = Integer 7, crewMemberId = Integer 1, d_type = Text ''passport'',
      documentNumber = Text ''P0000000'', expiryDate = Text ''2030-01-01'',
      issueDate = Text ''2020-01-01'', issuingAuthority = Text ''Chennai''\<rparr>"

definition sample_row :: row where
  "sample_row =
     \<lparr>col0 = Text ''VENKATARANGAN'', col1 = Text ''BALAJI'', col2 = Text ''1970-01-01'',
      col3 = Integer 7, col4 = Text ''P0000000'', col5 = Text ''2030-01-01'',
      col6 = Text ''2020-01-01'', col7 = Text ''Chennai''\<rparr>"

section \<open>Properties\<close>

subsection \<open>Script A\<close>

lemma fix_readme_exit_zero:
  "exit_code (fix_readme w) = 0 \<longleftrightarrow> hub_installed_a w \<and> upload_file_exc w = None"
  by (simp add: fix_readme_def Let_def split: option.splits)

text \<open>
  Claim C7. A run of Script A that succeeds (exit code 0) makes exactly one upload call; its
  \<open>path_in_repo\<close> is the literal \<open>README.md\<close>, the name of the file it sends; the run ends
  with the success message and the line that holds the address of the space.
\<close>

theorem fix_readme_success:
  assumes "exit_code (fix_readme w) = 0"
  shows "filter is_upload_file (trace (fix_readme w)) =
           [Upload_file ''README.md'' ''README.md'' REPO_ID_A ''space'' TOKEN_A]
         \<and> printed (trace (fix_readme w)) =
           [''Uploading README.md to fix configuration error...'',
            check_mark @ '' README.md uploaded successfully!'',
            ''Check your Space at: https://huggingface.co/spaces/Sagar007Rana/sea-crew-manager'']"
proof -
  from assms have "hub_installed_a w" and "upload_file_exc w = None"
    by (simp_all add: fix_readme_exit_zero)
  then show ?thesis
    by (simp add: fix_readme_def REPO_ID_A_def)
qed

text \<open>The run in which the library is there and the upload returns.\<close>

theorem fix_readme_success_witness:
  "exit_code (fix_readme \<lparr>hub_installed_a = True, upload_file_exc = None\<rparr>) = 0
   \<and> filter is_upload_file (trace (fix_readme \<lparr>hub_installed_a = True, upload_file_exc = None\<rparr>)) =
       [Upload_file ''README.md'' ''README.md'' REPO_ID_A ''space'' TOKEN_A]"
proof -
  have h: "exit_code (fix_readme \<lparr>hub_installed_a = True, upload_file_exc = None\<rparr>) = 0"
    by (simp add: fix_readme_def)
  from fix_readme_success [OF h] h show ?thesis by simp
qed

subsection \<open>Script C: the shape of a run\<close>

lemma config_events_cases:
  "config_events w =
     (if 2 < length (argv w) then [] else [Input prompt_repo_id, Input prompt_token])"
  by (simp add: config_events_def get_config_def)

lemma config_events_no_network: "filter is_network_call (config_events w) = []"
  by (simp add: config_events_cases is_network_call_def)

lemma no_create_in_config: "filter is_create_repo (config_events w) = []"
  by (simp add: config_events_cases)

lemma no_upload_in_config: "filter is_upload_folder (config_events w) = []"
  by (simp add: config_events_cases)

lemma exit_code_installed: "hub_installed w \<Longrightarrow> exit_code (script_c w) = 0"
  by (simp add: script_c_def)

lemma trace_valid:
  assumes "hub_installed w" "config_repo_id w \<noteq> []" "config_token w \<noteq> []"
  shows "trace (script_c w) =
           config_events w @ [Print (''Starting upload to '' @ config_repo_id w @ ''...'')]
           @ try_upload w (config_repo_id w) (config_token w)"
  using assms by (simp add: script_c_def main_guard_def upload_to_hf_def Let_def)

lemma try_upload_present:
  assumes "repo_info_exc w = None"
  shows "try_upload w r t =
           [Repo_info r ''space'',
            Upload_folder ''.'' r ''space'' t ignore_patterns
              (filter_repo_objects (cwd_files w) ignore_patterns)]
           @ (case upload_folder_exc w of
                None \<Rightarrow> [Print (newline # ''Upload Complete!''),
                          Print (''Your app will be live soon at: https://huggingface.co/spaces/'' @ r)]
              | Some e \<Rightarrow> [Print (error_message e)])"
  using assms
  by (simp add: try_upload_def ensure_repo_def do_upload_def split: option.splits)

lemma try_upload_create_fails:
  assumes "repo_info_exc w = Some pe" "create_repo_exc w = Some e"
  shows "try_upload w r t =
           [Repo_info r ''space'',
            Print (''Space '' @ r @ '' not found. Creating it now...''),
            Create_repo r ''space'' ''docker'' t,
            Print (error_message e)]"
  using assms by (simp add: try_upload_def ensure_repo_def)

lemma try_upload_created:
  assumes "repo_info_exc w = Some pe" "create_repo_exc w = None"
  shows "try_upload w r t =
           [Repo_info r ''space'',
            Print (''Space '' @ r @ '' not found. Creating it now...''),
            Create_repo r ''space'' ''docker'' t,
            Print ''Space created successfully!'',
            Upload_folder ''.'' r ''space'' t ignore_patterns
              (filter_repo_objects (cwd_files w) ignore_patterns)]
           @ (case upload_folder_exc w of
                None \<Rightarrow> [Print (newline # ''Upload Complete!''),
                          Print (''Your app will be live soon at: https://huggingface.co/spaces/'' @ r)]
              | Some e \<Rightarrow> [Print (error_message e)])"
  using assms
  by (simp add: try_upload_def ensure_repo_def do_upload_def split: option.splits)

text \<open>What a run does not read, it does not depend on.\<close>

lemma try_upload_argv: "try_upload (w\<lparr>argv := a\<rparr>) r t = try_upload w r t"
  by (simp add: try_upload_def ensure_repo_def do_upload_def split: option.splits)

lemma try_upload_probe:
  "repo_info_exc w = Some e \<Longrightarrow>
   try_upload (w\<lparr>repo_info_exc := Some e'\<rparr>) r t = try_upload w r t"
  by (simp add: try_upload_def ensure_repo_def do_upload_def)

lemma get_config_probe: "get_config (w\<lparr>repo_info_exc := x\<rparr>) = get_config w"
  by (simp add: get_config_def)

lemma get_config_short_argv:
  "length (argv w) \<le> 2 \<Longrightarrow> length a \<le> 2 \<Longrightarrow> get_config (w\<lparr>argv := a\<rparr>) = get_config w"
  by (simp add: get_config_def)

lemma upload_to_hf_probe:
  "repo_info_exc w = Some e \<Longrightarrow>
   upload_to_hf (w\<lparr>repo_info_exc := Some e'\<rparr>) = upload_to_hf w"
  by (simp add: upload_to_hf_def Let_def config_events_def config_repo_id_def
        config_token_def get_config_probe try_upload_probe)

lemma upload_to_hf_short_argv:
  "length (argv w) \<le> 2 \<Longrightarrow> length a \<le> 2 \<Longrightarrow>
   upload_to_hf (w\<lparr>argv := a\<rparr>) = upload_to_hf w"
  by (simp add: upload_to_hf_def Let_def config_events_def config_repo_id_def
        config_token_def get_config_short_argv try_upload_argv)

lemma script_c_probe:
  "repo_info_exc w = Some e \<Longrightarrow> script_c (w\<lparr>repo_info_exc := Some e'\<rparr>) = script_c w"
  by (simp add: script_c_def main_guard_def upload_to_hf_probe)

lemma script_c_short_argv:
  "length (argv w) \<le> 2 \<Longrightarrow> length a \<le> 2 \<Longrightarrow> script_c (w\<lparr>argv := a\<rparr>) = script_c w"
  by (simp add: script_c_def main_guard_def upload_to_hf_short_argv)

text \<open>The sample worlds pass the validation of line 14.\<close>

lemma scenario_config:
  "config_repo_id scenario_world = ''user/space''" "config_token scenario_world = ''hf_token''"
  by (simp_all add: config_repo_id_def config_token_def get_config_def scenario_world_def)

lemma absent_config:
  "config_repo_id absent_world = ''user/space''" "config_token absent_world = ''hf_token''"
  by (simp_all add: config_repo_id_def config_token_def get_config_def absent_world_def
        scenario_world_def)

lemma forbidden_config:
  "config_repo_id forbidden_world = ''user/space''" "config_token forbidden_world = ''hf_token''"
  by (simp_all add: config_repo_id_def config_token_def get_config_def forbidden_world_def
        scenario_world_def)

lemma upload_fails_config:
  "config_repo_id upload_fails_world = ''user/space''"
  "config_token upload_fails_world = ''hf_token''"
  by (simp_all add: config_repo_id_def config_token_def get_config_def upload_fails_world_def
        scenario_world_def)

lemma create_fails_config:
  "config_repo_id create_fails_world = ''user/space''"
  "config_token create_fails_world = ''hf_token''"
  by (simp_all add: config_repo_id_def config_token_def get_config_def create_fails_world_def
        absent_world_def scenario_world_def)

text \<open>
  Property X1. The installation branch of the guard (lines 64 to 66) is never run: a missing library
  ends the process at the import of line 3, with exit code 1 and nothing printed, and with
  the library there the guard's own import succeeds.
\<close>

theorem install_branch_unreachable:
  "filter is_os_system (trace (script_c w)) = []
   \<and> (\<not> hub_installed w \<longrightarrow> trace (script_c w) = [] \<and> exit_code (script_c w) = 1)"
proof (cases "hub_installed w")
  case False
  then show ?thesis by (simp add: script_c_def)
next
  case True
  have "filter is_os_system (try_upload w r t) = []" for r t
    by (simp add: try_upload_def ensure_repo_def do_upload_def split: option.splits)
  with True show ?thesis
    by (simp add: script_c_def main_guard_def upload_to_hf_def Let_def config_events_cases)
qed

text \<open>A machine without the library.\<close>

theorem install_branch_unreachable_witness:
  "\<not> hub_installed (scenario_world\<lparr>hub_installed := False\<rparr>)
   \<and> trace (script_c (scenario_world\<lparr>hub_installed := False\<rparr>)) = []
   \<and> exit_code (script_c (scenario_world\<lparr>hub_installed := False\<rparr>)) = 1"
  using install_branch_unreachable [of "scenario_world\<lparr>hub_installed := False\<rparr>"]
  by simp

subsection \<open>Script C: the files sent\<close>

lemma upload_payloads_append:
  "upload_payloads (xs @ ys) = upload_payloads xs @ upload_payloads ys"
  by (induction xs rule: upload_payloads.induct) simp_all

lemma payloads_config: "upload_payloads (config_events w) = []"
  by (simp add: config_events_cases)

lemma payloads_try_upload:
  "upload_payloads (try_upload w r t) =
     (if repo_info_exc w = None \<or> create_repo_exc w = None
      then [filter_repo_objects (cwd_files w) ignore_patterns] else [])"
  by (simp add: try_upload_def ensure_repo_def do_upload_def upload_payloads_append
        split: option.splits)

lemma payloads_script_c:
  "upload_payloads (trace (script_c w)) =
     (if hub_installed w \<and> config_repo_id w \<noteq> [] \<and> config_token w \<noteq> []
         \<and> (repo_info_exc w = None \<or> create_repo_exc w = None)
      then [filter_repo_objects (cwd_files w) ignore_patterns] else [])"
  by (simp add: script_c_def main_guard_def upload_to_hf_def Let_def upload_payloads_append
        payloads_config payloads_try_upload)

lemma ignored_app: "\<not> ignored ignore_patterns ''app.py''"
  by (simp add: ignored_def ignore_patterns_def)

lemma ignored_node: "ignored ignore_patterns ''node_modules/pkg/index.js''"
  by (simp add: ignored_def ignore_patterns_def)

lemma ignored_env: "ignored ignore_patterns ''.env''"
  by (simp add: ignored_def ignore_patterns_def)

lemma scenario_set:
  assumes "set fs = {''app.py'', ''node_modules/pkg/index.js'', ''.env''}"
  shows "set (filter_repo_objects fs ignore_patterns) = {''app.py''}"
proof -
  have "set (filter_repo_objects fs ignore_patterns) =
          {p \<in> set fs. \<not> ignored ignore_patterns p}"
    by (simp add: filter_repo_objects_def)
  also have "\<dots> = {''app.py''}"
    unfolding assms using ignored_app ignored_node ignored_env by blast
  finally show ?thesis .
qed

lemma scenario_payload:
  "upload_payloads (trace (script_c scenario_world)) = [ [''app.py''] ]"
proof -
  have "filter_repo_objects (cwd_files scenario_world) ignore_patterns = [''app.py'']"
    by (simp add: scenario_world_def filter_repo_objects_def ignored_app ignored_node
          ignored_env)
  moreover have "hub_installed scenario_world" "repo_info_exc scenario_world = None"
    by (simp_all add: scenario_world_def)
  ultimately show ?thesis
    by (simp add: payloads_script_c scenario_config)
qed

text \<open>
  Claim C1. Whatever the files of the current directory, every file that an upload call of
  Script C sends is one of them and matches none of the eleven patterns. When the directory
  holds exactly \<open>app.py\<close>, \<open>node_modules/pkg/index.js\<close> and \<open>.env\<close>, an upload call
  sends \<open>app.py\<close> and nothing else; and a run that gets as far as the upload makes one
  such call.
\<close>

theorem ignored_files_never_uploaded:
  "(\<forall>files \<in> set (upload_payloads (trace (script_c w))). \<forall>f \<in> set files.
       f \<in> set (cwd_files w) \<and> \<not> ignored ignore_patterns f)
   \<and> (set (cwd_files w) = {''app.py'', ''node_modules/pkg/index.js'', ''.env''} \<longrightarrow>
        (\<forall>files \<in> set (upload_payloads (trace (script_c w))). set files = {''app.py''}))
   \<and> (hub_installed w \<and> config_repo_id w \<noteq> [] \<and> config_token w \<noteq> []
        \<and> (repo_info_exc w = None \<or> create_repo_exc w = None) \<longrightarrow>
        length (upload_payloads (trace (script_c w))) = 1)"
proof -
  have a: "\<forall>files \<in> set (upload_payloads (trace (script_c w))). \<forall>f \<in> set files.
       f \<in> set (cwd_files w) \<and> \<not> ignored ignore_patterns f"
    by (simp add: payloads_script_c filter_repo_objects_def)
  have b: "set (cwd_files w) = {''app.py'', ''node_modules/pkg/index.js'', ''.env''} \<longrightarrow>
        (\<forall>files \<in> set (upload_payloads (trace (script_c w))). set files = {''app.py''})"
    by (simp add: payloads_script_c scenario_set)
  have c: "hub_installed w \<and> config_repo_id w \<noteq> [] \<and> config_token w \<noteq> []
        \<and> (repo_info_exc w = None \<or> create_repo_exc w = None) \<longrightarrow>
        length (upload_payloads (trace (script_c w))) = 1"
    by (simp add: payloads_script_c)
  from a b c show ?thesis by blast
qed

text \<open>The scenario of the claim, on a run whose probe finds the space.\<close>

theorem ignored_files_never_uploaded_witness:
  "set (cwd_files scenario_world) = {''app.py'', ''node_modules/pkg/index.js'', ''.env''}
   \<and> hub_installed scenario_world
   \<and> config_repo_id scenario_world \<noteq> [] \<and> config_token scenario_world \<noteq> []
   \<and> repo_info_exc scenario_world = None
   \<and> upload_payloads (trace (script_c scenario_world)) = [ [''app.py''] ]
   \<and> ''app.py'' \<in> set (cwd_files scenario_world)
   \<and> \<not> ignored ignore_patterns ''app.py''
   \<and> length (upload_payloads (trace (script_c scenario_world))) = 1"
proof -
  have h: "set (cwd_files scenario_world) = {''app.py'', ''node_modules/pkg/index.js'', ''.env''}"
    by (auto simp add: scenario_world_def)
  have v: "hub_installed scenario_world" "repo_info_exc scenario_world = None"
    by (simp_all add: scenario_world_def)
  have p: "upload_payloads (trace (script_c scenario_world)) = [ [''app.py''] ]"
    by (rule scenario_payload)
  from ignored_files_never_uploaded [of scenario_world] h v p show ?thesis
    by (simp add: scenario_config)
qed

subsection \<open>Script C: validation\<close>

text \<open>
  Claim C4. When the identifier or the token that Script C has read is the empty string, the
  run makes no network call at all: no probe, no creation, no upload. It prints the
  message of line 15 after whatever prompts it showed, and returns.
\<close>

theorem empty_config_no_network:
  assumes "config_repo_id w = [] \<or> config_token w = []"
  shows "filter is_network_call (trace (script_c w)) = []
         \<and> (hub_installed w \<longrightarrow>
              trace (script_c w) =
                config_events w @ [Print ''Error: Repo ID and Token are required.'']
              \<and> exit_code (script_c w) = 0)"
  using assms
  by (auto simp add: script_c_def main_guard_def upload_to_hf_def Let_def
        config_events_no_network is_network_call_def)

text \<open>A command line whose second argument is the empty string.\<close>

theorem empty_config_no_network_witness:
  "config_token empty_token_world = []
   \<and> hub_installed empty_token_world
   \<and> filter is_network_call (trace (script_c empty_token_world)) = []
   \<and> trace (script_c empty_token_world) = [Print ''Error: Repo ID and Token are required.'']"
proof -
  have t: "config_token empty_token_world = []"
    by (simp add: config_token_def get_config_def empty_token_world_def scenario_world_def)
  have i: "hub_installed empty_token_world"
    by (simp add: empty_token_world_def scenario_world_def)
  have c: "config_events empty_token_world = []"
    by (simp add: config_events_cases empty_token_world_def scenario_world_def)
  from empty_config_no_network [of empty_token_world] t i c show ?thesis
    by (simp add: is_network_call_def)
qed

subsection \<open>Script C: probe, creation, upload\<close>

text \<open>
  In a list that has a creation call with no upload call in front of it, every upload call
  comes after a creation call.
\<close>

lemma create_first:
  assumes tr: "tr = pre @ c # post" and c: "is_create_repo c"
    and pre: "filter is_upload_folder pre = []"
    and i: "i < length tr" "is_upload_folder (tr ! i)"
  shows "\<exists>j<i. is_create_repo (tr ! j)"
proof -
  have "\<not> is_upload_folder c" using c by (cases c) simp_all
  moreover have "tr ! length pre = c" using tr by simp
  moreover have "\<not> i < length pre"
  proof
    assume lt: "i < length pre"
    then have "tr ! i = pre ! i" using tr by (simp add: nth_append)
    with i(2) lt have "pre ! i \<in> set (filter is_upload_folder pre)" by simp
    with pre show False by simp
  qed
  ultimately have "length pre < i" using i(2) by (cases "i = length pre") auto
  moreover have "is_create_repo (tr ! length pre)" using tr c by simp
  ultimately show ?thesis by blast
qed

text \<open>
  Claim C3. On a run of Script C that has passed the validation: when the probe raises (the
  space is reported absent), exactly one creation call is made, every upload call of the
  run comes after it, and the upload call is made once the creation has returned; when the
  probe returns (the space is there), no creation call is made.
\<close>

theorem create_only_when_probe_fails:
  assumes "hub_installed w" "config_repo_id w \<noteq> []" "config_token w \<noteq> []"
  shows "(repo_info_exc w \<noteq> None \<longrightarrow>
            length (filter is_create_repo (trace (script_c w))) = 1
            \<and> (\<forall>i < length (trace (script_c w)).
                  is_upload_folder (trace (script_c w) ! i) \<longrightarrow>
                  (\<exists>j<i. is_create_repo (trace (script_c w) ! j)))
            \<and> (create_repo_exc w = None \<longrightarrow>
                  length (filter is_upload_folder (trace (script_c w))) = 1))
         \<and> (repo_info_exc w = None \<longrightarrow> filter is_create_repo (trace (script_c w)) = [])"
proof (cases "repo_info_exc w")
  case None
  then show ?thesis
    using assms
    by (simp add: trace_valid try_upload_present no_create_in_config split: option.splits)
next
  case (Some pe)
  let ?tr = "trace (script_c w)"
  let ?r = "config_repo_id w" and ?t = "config_token w"
  let ?pre = "config_events w @ [Print (''Starting upload to '' @ ?r @ ''...''),
               Repo_info ?r ''space'', Print (''Space '' @ ?r @ '' not found. Creating it now...'')]"
  have "\<exists>post. ?tr = ?pre @ Create_repo ?r ''space'' ''docker'' ?t # post"
    using assms Some
    by (cases "create_repo_exc w")
       (simp_all add: trace_valid try_upload_created try_upload_create_fails)
  then obtain post where tr: "?tr = ?pre @ Create_repo ?r ''space'' ''docker'' ?t # post" ..
  have pre: "filter is_upload_folder ?pre = []"
    by (simp add: no_upload_in_config)
  have order: "\<forall>i < length ?tr. is_upload_folder (?tr ! i) \<longrightarrow> (\<exists>j<i. is_create_repo (?tr ! j))"
    using create_first [OF tr _ pre] by simp
  have count: "length (filter is_create_repo ?tr) = 1"
    using assms Some
    by (cases "create_repo_exc w")
       (simp_all add: trace_valid try_upload_created try_upload_create_fails
          no_create_in_config split: option.splits)
  have up: "create_repo_exc w = None \<longrightarrow> length (filter is_upload_folder ?tr) = 1"
    using assms Some
    by (simp add: trace_valid try_upload_created no_upload_in_config split: option.splits)
  from Some order count up show ?thesis by simp
qed

text \<open>One run whose probe raises and one whose probe returns.\<close>

theorem create_only_when_probe_fails_witness:
  "hub_installed absent_world
   \<and> config_repo_id absent_world \<noteq> [] \<and> config_token absent_world \<noteq> []
   \<and> repo_info_exc absent_world \<noteq> None \<and> create_repo_exc absent_world = None
   \<and> length (filter is_create_repo (trace (script_c absent_world))) = 1
   \<and> length (filter is_upload_folder (trace (script_c absent_world))) = 1
   \<and> hub_installed scenario_world
   \<and> config_repo_id scenario_world \<noteq> [] \<and> config_token scenario_world \<noteq> []
   \<and> repo_info_exc scenario_world = None
   \<and> filter is_create_repo (trace (script_c scenario_world)) = []"
proof -
  have a: "hub_installed absent_world" "config_repo_id absent_world \<noteq> []"
    "config_token absent_world \<noteq> []"
    by (simp_all add: absent_config) (simp add: absent_world_def scenario_world_def)
  have a': "repo_info_exc absent_world \<noteq> None" "create_repo_exc absent_world = None"
    by (simp_all add: absent_world_def scenario_world_def)
  have s: "hub_installed scenario_world" "config_repo_id scenario_world \<noteq> []"
    "config_token scenario_world \<noteq> []"
    by (simp_all add: scenario_config) (simp add: scenario_world_def)
  have s': "repo_info_exc scenario_world = None"
    by (simp add: scenario_world_def)
  from create_only_when_probe_fails [OF a] create_only_when_probe_fails [OF s] a a' s s'
  show ?thesis by simp
qed

text \<open>
  Claim C6. Whatever exception the probe of Script C raises, the run goes on to the creation
  call: the call is in the trace, the process ends with exit code 0, and the run is the
  same, event for event, for any other exception the probe might have raised instead, so
  the probe's exception is neither raised again nor shown.
\<close>

theorem probe_exception_creates:
  assumes "hub_installed w" "config_repo_id w \<noteq> []" "config_token w \<noteq> []"
    and "repo_info_exc w = Some e"
  shows "Create_repo (config_repo_id w) ''space'' ''docker'' (config_token w)
           \<in> set (trace (script_c w))
         \<and> exit_code (script_c w) = 0
         \<and> (\<forall>e'. script_c (w\<lparr>repo_info_exc := Some e'\<rparr>) = script_c w)"
proof -
  have a: "Create_repo (config_repo_id w) ''space'' ''docker'' (config_token w)
           \<in> set (trace (script_c w))"
    using assms
    by (cases "create_repo_exc w")
       (simp_all add: trace_valid try_upload_created try_upload_create_fails)
  have b: "script_c (w\<lparr>repo_info_exc := Some e'\<rparr>) = script_c w" for e'
    using assms(4) by (rule script_c_probe)
  from a b assms(1) show ?thesis by (simp add: exit_code_installed)
qed

text \<open>A probe that fails on a permission error, next to one that reports absence.\<close>

theorem probe_exception_creates_witness:
  "hub_installed forbidden_world
   \<and> config_repo_id forbidden_world \<noteq> [] \<and> config_token forbidden_world \<noteq> []
   \<and> repo_info_exc forbidden_world = Some (Exn ''HfHubHTTPError'' ''403 Forbidden'')
   \<and> Create_repo ''user/space'' ''space'' ''docker'' ''hf_token''
        \<in> set (trace (script_c forbidden_world))
   \<and> exit_code (script_c forbidden_world) = 0
   \<and> script_c absent_world = script_c forbidden_world"
proof -
  have f: "hub_installed forbidden_world" "config_repo_id forbidden_world \<noteq> []"
    "config_token forbidden_world \<noteq> []"
    "repo_info_exc forbidden_world = Some (Exn ''HfHubHTTPError'' ''403 Forbidden'')"
    by (simp_all add: forbidden_config) (simp_all add: forbidden_world_def scenario_world_def)
  have eq: "absent_world =
      forbidden_world\<lparr>repo_info_exc := Some (Exn ''RepositoryNotFoundError'' ''404 Client Error'')\<rparr>"
    by (simp add: absent_world_def forbidden_world_def)
  note run = probe_exception_creates [OF f]
  from run have
    "script_c (forbidden_world\<lparr>repo_info_exc :=
        Some (Exn ''RepositoryNotFoundError'' ''404 Client Error'')\<rparr>) = script_c forbidden_world"
    by blast
  then have same: "script_c absent_world = script_c forbidden_world"
    by (simp only: eq)
  from run f same show ?thesis
    by (simp add: forbidden_config)
qed

text \<open>
  Claim C9. When the creation call or the upload call of Script C raises an exception, the
  handler of line 57 catches it: the last thing the run does is to print the line
  \<open>Error:\<close> with the exception's text, the completion message is not printed, and the
  process ends with exit code 0.
\<close>

theorem upload_failure_exit_zero:
  assumes "hub_installed w" "config_repo_id w \<noteq> []" "config_token w \<noteq> []"
    and "(repo_info_exc w \<noteq> None \<and> create_repo_exc w = Some e)
         \<or> ((repo_info_exc w = None \<or> create_repo_exc w = None) \<and> upload_folder_exc w = Some e)"
  shows "trace (script_c w) \<noteq> []
         \<and> last (trace (script_c w)) = Print (newline # ''Error: '' @ exn_str e)
         \<and> Print (newline # ''Upload Complete!'') \<notin> set (trace (script_c w))
         \<and> exit_code (script_c w) = 0"
proof -
  have cfg: "Print (newline # ''Upload Complete!'') \<notin> set (config_events w)"
    by (simp add: config_events_cases)
  show ?thesis
  proof (cases "repo_info_exc w")
    case None
    with assms cfg show ?thesis
      by (simp add: trace_valid try_upload_present exit_code_installed error_message_def)
  next
    case probe: (Some pe)
    show ?thesis
    proof (cases "create_repo_exc w")
      case None
      with probe assms cfg show ?thesis
        by (simp add: trace_valid try_upload_created exit_code_installed error_message_def)
    next
      case (Some ce)
      with probe assms cfg show ?thesis
        by (simp add: trace_valid try_upload_create_fails exit_code_installed
              error_message_def)
    qed
  qed
qed

text \<open>An upload that fails on the network, and a creation that is refused.\<close>

theorem upload_failure_exit_zero_witness:
  "hub_installed upload_fails_world
   \<and> config_repo_id upload_fails_world \<noteq> [] \<and> config_token upload_fails_world \<noteq> []
   \<and> repo_info_exc upload_fails_world = None
   \<and> upload_folder_exc upload_fails_world = Some (Exn ''ConnectionError'' ''connection reset'')
   \<and> last (trace (script_c upload_fails_world)) = Print (newline # ''Error: connection reset'')
   \<and> exit_code (script_c upload_fails_world) = 0
   \<and> hub_installed create_fails_world
   \<and> config_repo_id create_fails_world \<noteq> [] \<and> config_token create_fails_world \<noteq> []
   \<and> repo_info_exc create_fails_world \<noteq> None
   \<and> create_repo_exc create_fails_world = Some (Exn ''HfHubHTTPError'' ''409 Conflict'')
   \<and> last (trace (script_c create_fails_world)) = Print (newline # ''Error: 409 Conflict'')
   \<and> exit_code (script_c create_fails_world) = 0"
proof -
  have h: "hub_installed upload_fails_world" "config_repo_id upload_fails_world \<noteq> []"
    "config_token upload_fails_world \<noteq> []"
    by (simp_all add: upload_fails_config) (simp add: upload_fails_world_def scenario_world_def)
  have p: "repo_info_exc upload_fails_world = None"
    "upload_folder_exc upload_fails_world = Some (Exn ''ConnectionError'' ''connection reset'')"
    by (simp_all add: upload_fails_world_def scenario_world_def)
  have d: "(repo_info_exc upload_fails_world \<noteq> None
            \<and> create_repo_exc upload_fails_world = Some (Exn ''ConnectionError'' ''connection reset''))
         \<or> ((repo_info_exc upload_fails_world = None \<or> create_repo_exc upload_fails_world = None)
            \<and> upload_folder_exc upload_fails_world = Some (Exn ''ConnectionError'' ''connection reset''))"
    using p by simp
  have h': "hub_installed create_fails_world" "config_repo_id create_fails_world \<noteq> []"
    "config_token create_fails_world \<noteq> []"
    by (simp_all add: create_fails_config)
       (simp add: create_fails_world_def absent_world_def scenario_world_def)
  have p': "repo_info_exc create_fails_world \<noteq> None"
    "create_repo_exc create_fails_world = Some (Exn ''HfHubHTTPError'' ''409 Conflict'')"
    by (simp_all add: create_fails_world_def absent_world_def scenario_world_def)
  have d': "(repo_info_exc create_fails_world \<noteq> None
            \<and> create_repo_exc create_fails_world = Some (Exn ''HfHubHTTPError'' ''409 Conflict''))
         \<or> ((repo_info_exc create_fails_world = None \<or> create_repo_exc create_fails_world = None)
            \<and> upload_folder_exc create_fails_world = Some (Exn ''HfHubHTTPError'' ''409 Conflict''))"
    using p' by simp
  from upload_failure_exit_zero [OF h d] upload_failure_exit_zero [OF h' d'] h p h' p'
  show ?thesis by simp
qed

subsection \<open>Script C: the command line\<close>

text \<open>
  Claim C10. With exactly one command-line argument (\<open>sys.argv\<close> of length 2) Script C
  takes the interactive branch: it shows both prompts, the identifier and the token are
  the two lines typed, and the run is the same as with no argument or with any other
  single argument. The values come from the command line only when it has two arguments
  or more after the script's name.
\<close>

theorem one_argument_ignored:
  assumes "length (argv w) = 2"
  shows "config_events w = [Input prompt_repo_id, Input prompt_token]
         \<and> config_repo_id w = stdin_line w 0
         \<and> config_token w = stdin_line w 1
         \<and> script_c (w\<lparr>argv := [argv w ! 0]\<rparr>) = script_c w
         \<and> (\<forall>a. script_c (w\<lparr>argv := [argv w ! 0, a]\<rparr>) = script_c w)
         \<and> (\<forall>a b rest. get_config (w\<lparr>argv := argv w ! 0 # a # b # rest\<rparr>) = ([], a, b))"
  using assms
  by (simp add: script_c_short_argv config_events_def config_repo_id_def config_token_def
        get_config_def)

text \<open>One argument on the command line, two lines typed.\<close>

theorem one_argument_ignored_witness:
  "length (argv one_arg_world) = 2
   \<and> argv one_arg_world ! 1 = ''user/space''
   \<and> config_events one_arg_world = [Input prompt_repo_id, Input prompt_token]
   \<and> config_repo_id one_arg_world = ''typed/space''
   \<and> config_token one_arg_world = ''typed_token''"
proof -
  have h: "length (argv one_arg_world) = 2"
    by (simp add: one_arg_world_def scenario_world_def)
  have l: "stdin_line one_arg_world 0 = ''typed/space''"
    "stdin_line one_arg_world 1 = ''typed_token''"
    "argv one_arg_world ! 1 = ''user/space''"
    by (simp_all add: one_arg_world_def scenario_world_def)
  from one_argument_ignored [OF h] h l show ?thesis by simp
qed

subsection \<open>Script B\<close>


lemma query_one_match: "query [sample_member, other_member] [sample_passport] = [sample_row]"
  by (simp add: query_def sample_member_def other_member_def sample_passport_def
        sample_row_def sql_eq_def)




text \<open>
  Claim C5. On a data file in which exactly one row matches the query, Script B prints,
  after the banner, the eight fields of that row with their labels in the order of the
  source: first and last name on the line \<open>Name:\<close>, date of birth, a separator line,
  document id, passport number, expiry date, issue date, issuing authority.
\<close>

theorem one_row_prints_eight_fields:
  assumes "query cms docs = [r]"
  shows "printed (trace (query_balaji (Tables cms docs))) =
           [''=== VENKATARANGAN BALAJI Passport Data ==='' @ [newline],
            ''Name: '' @ py_str (col0 r) @ '' '' @ py_str (col1 r),
            ''Date of Birth: '' @ py_str (col2 r),
            ''---'',
            ''Document ID: '' @ py_str (col3 r),
            ''Passport Number: '' @ py_str (col4 r),
            ''Expiry Date: '' @ py_str (col5 r),
            ''Issue Date: '' @ py_str (col6 r),
            ''Issuing Authority: '' @ py_str (col7 r)]
         \<and> exit_code (query_balaji (Tables cms docs)) = 0"
  using assms
  by (simp add: query_balaji_def sqlite3_connect_def cursor_execute_def
          cursor_fetchone_def fetchone_def print_result_def header_def)

lemma str_int_7: "str_int 7 = ''7''"
  by code_simp

text \<open>Two crew members and one passport, of which one pair matches.\<close>

theorem one_row_prints_eight_fields_witness:
  "query [sample_member, other_member] [sample_passport] = [sample_row]
   \<and> printed (trace (query_balaji (Tables [sample_member, other_member] [sample_passport]))) =
       [''=== VENKATARANGAN BALAJI Passport Data ==='' @ [newline],
        ''Name: VENKATARANGAN BALAJI'',
        ''Date of Birth: 1970-01-01'',
        ''---'',
        ''Document ID: 7'',
        ''Passport Number: P0000000'',
        ''Expiry Date: 2030-01-01'',
        ''Issue Date: 2020-01-01'',
        ''Issuing Authority: Chennai'']"
proof -
  note one_row_prints_eight_fields [OF query_one_match]
  then show ?thesis
    by (simp add: query_one_match sample_row_def str_int_7)
qed






end
